theory Spec2Isabelle
  imports Main
begin

section \<open>Python values and built-ins shared by both scripts\<close>

text \<open>
  Both scripts are Python 2 programs. Text is modelled as \<^typ>\<open>string\<close>: a byte
  string as its bytes, a \<^verbatim>\<open>unicode\<close> object as the bytes of its UTF-8 encoding. An
  exception that no \<^verbatim>\<open>except\<close> clause catches ends the run; it is a value of
  \<open>pyexc\<close>.
\<close>

datatype pyexc =
  KeyError | TypeError | AttributeError | ValueError | RequestException | UnicodeEncodeError

text \<open>
  Text is ASCII when no byte has its top bit set. Only such text passes the default
  codec, which \<^verbatim>\<open>str\<close> applies to a \<^verbatim>\<open>unicode\<close> object.
\<close>

definition is_ascii :: "string \<Rightarrow> bool" where
  "is_ascii s = list_all (\<lambda>c. \<not> digit7 c) s"

text \<open>Decimal rendering of integers, as \<^verbatim>\<open>%d\<close> and \<^verbatim>\<open>str\<close> produce it.\<close>

fun digits :: "nat \<Rightarrow> string" where
  "digits n =
     (if n < 10 then [''0123456789'' ! n]
      else digits (n div 10) @ [''0123456789'' ! (n mod 10)])"

definition str_int :: "int \<Rightarrow> string" where
  "str_int i = (if i < 0 then ''-'' @ digits (nat (- i)) else digits (nat i))"

section \<open>check\_okcomputer\_health\_page.py\<close>

subsection \<open>Decoded JSON\<close>

text \<open>
  The value \<^verbatim>\<open>json.loads\<close> returns. A float is kept as mantissa and binary
  exponent, or as one of the special values the decoder accepts; only whether it is zero
  matters to the script. An object is the list of its \<^verbatim>\<open>items()\<close>. A string with a
  character outside ASCII is decoded to a \<^verbatim>\<open>unicode\<close> object, and so is a key.
\<close>

datatype pyfloat = Finite int int | Infinity bool | NaN

datatype json =
    JNull
  | JBool bool
  | JInt int
  | JFloat pyfloat
  | JStr string
  | JArr "json list"
  | JObj "(string \<times> json) list"

text \<open>\<^verbatim>\<open>x == False\<close>: true of \<^verbatim>\<open>False\<close> and of the numbers equal to zero.\<close>

fun eq_False :: "json \<Rightarrow> bool" where
  "eq_False (JBool b) = (\<not> b)"
| "eq_False (JInt n) = (n = 0)"
| "eq_False (JFloat (Finite m e)) = (m = 0)"
| "eq_False _ = False"

text \<open>
  \<^verbatim>\<open>x[key]\<close> with a string key: a dict raises KeyError on a missing key, every
  other decoded value raises TypeError.
\<close>

fun getitem :: "json \<Rightarrow> string \<Rightarrow> pyexc + json" where
  "getitem (JObj d) k = (case map_of d k of None \<Rightarrow> Inl KeyError | Some v \<Rightarrow> Inr v)"
| "getitem _ k = Inl TypeError"

text \<open>\<^verbatim>\<open>x.items()\<close>: only a dict has the method.\<close>

fun items :: "json \<Rightarrow> pyexc + (string \<times> json) list" where
  "items (JObj d) = Inr d"
| "items _ = Inl AttributeError"

text \<open>
  \<^verbatim>\<open>%s\<close> formatting of a decoded value. Strings, booleans, None and integers are
  rendered here; the interpreter's rendering of floats, lists and dicts is the
  parameter \<open>repr\<close>.
\<close>

fun py_str :: "(json \<Rightarrow> string) \<Rightarrow> json \<Rightarrow> string" where
  "py_str repr (JStr s) = s"
| "py_str repr (JBool b) = (if b then ''True'' else ''False'')"
| "py_str repr JNull = ''None''"
| "py_str repr (JInt n) = str_int n"
| "py_str repr v = repr v"

subsection \<open>The Check class\<close>

record Check =
  name :: string
  message :: json
  success :: json

text \<open>
  \<^verbatim>\<open>str(check)\<close>. \<^verbatim>\<open>__str__\<close> formats the three fields with \<^verbatim>\<open>%\<close>; when a field is
  a \<^verbatim>\<open>unicode\<close> object the result is one too, and \<^verbatim>\<open>str\<close> encodes it with the ascii
  codec, which raises UnicodeEncodeError on a character outside ASCII. Booleans, None and
  numbers are rendered in ASCII, and so are lists and dicts (by their \<^verbatim>\<open>repr\<close>).
\<close>

fun encodable :: "json \<Rightarrow> bool" where
  "encodable (JStr s) = is_ascii s"
| "encodable _ = True"

definition str_Check :: "(json \<Rightarrow> string) \<Rightarrow> Check \<Rightarrow> pyexc + string" where
  "str_Check repr c =
     (if is_ascii (name c) \<and> encodable (message c) \<and> encodable (success c)
      then Inr (name c @ '' : {message: '' @ py_str repr (message c) @
                '', success: '' @ py_str repr (success c) @ ''}'')
      else Inl UnicodeEncodeError)"

subsection \<open>Outcome of a run\<close>

text \<open>
  A run either calls \<^verbatim>\<open>sys.exit\<close> with a status after printing some lines (one
  list element per \<^verbatim>\<open>print\<close> statement), or dies of an uncaught exception.
\<close>

datatype outcome = Exited int "string list" | Uncaught pyexc


subsection \<open>usage and parse\_args\<close>

record args =
  hostname :: string
  port :: int
  ssl :: bool
  url :: string
  excludeList :: "string list"

definition usage :: outcome where
  "usage = Exited 3
     [''('USAGE: check_okl_health_page -H <hostname> [-u <URL>] [-p <port>] ', '[-S] [-e <check_to_exclude>]')'',
      ''-H hostname (default: imp.newokl.com)'',
      ''-p port (default: 80)'',
      ''-S check via ssl'',
      ''-u URL (default: /health_checks)'' @ [CHR 0x0A, CHR 0x0A]]"

definition return_dict :: args where
  "return_dict =
     \<lparr>hostname = ''localhost'', port = 80, ssl = False, url = ''/health_checks'',
      excludeList = [''stub'']\<rparr>"

text \<open>
  The loop over the pairs \<^verbatim>\<open>getopt.getopt\<close> returned. \<open>py_int\<close> is the built-in
  \<^verbatim>\<open>int\<close> on strings, \<open>None\<close> where it raises ValueError.
\<close>

fun parse_opts :: "(string \<Rightarrow> int option) \<Rightarrow> (string \<times> string) list \<Rightarrow> args \<Rightarrow> outcome + args" where
  "parse_opts py_int [] d = Inr d"
| "parse_opts py_int ((opt, arg) # rest) d =
     (if opt = ''-h'' \<or> opt = ''--help'' then Inl usage
      else if opt = ''-H'' \<or> opt = ''--hostname'' then
        parse_opts py_int rest (d\<lparr>hostname := arg\<rparr>)
      else if opt = ''-p'' \<or> opt = ''--port'' then
        (case py_int arg of
           None \<Rightarrow> Inl (Uncaught ValueError)
         | Some p \<Rightarrow> parse_opts py_int rest (d\<lparr>port := p\<rparr>))
      else if opt = ''-S'' \<or> opt = ''--ssl'' then
        parse_opts py_int rest (d\<lparr>ssl := True\<rparr>)
      else if opt = ''-u'' \<or> opt = ''--url'' then
        parse_opts py_int rest (d\<lparr>url := arg\<rparr>)
      else if opt = ''-e'' \<or> opt = ''--exclude'' then
        parse_opts py_int rest (d\<lparr>excludeList := excludeList d @ [arg]\<rparr>)
      else parse_opts py_int rest d)"

text \<open>
  \<open>opts\<close> is what \<^verbatim>\<open>getopt.getopt(sys.argv[1:], "hH:p:Su:e:")\<close> returned, \<open>None\<close>
  where it raised GetoptError.
\<close>

definition parse_args :: "(string \<Rightarrow> int option) \<Rightarrow> (string \<times> string) list option \<Rightarrow> outcome + args" where
  "parse_args py_int opts =
     (case opts of None \<Rightarrow> Inl usage | Some os \<Rightarrow> parse_opts py_int os return_dict)"

subsection \<open>The main block\<close>

text \<open>What \<^verbatim>\<open>c.perform()\<close> and \<^verbatim>\<open>c.getinfo(c.HTTP_CODE)\<close> give for a URL.\<close>

datatype curl_result = CurlError | Response nat string

text \<open>
  The surroundings of one run: the command line after getopt, the built-in
  \<^verbatim>\<open>int\<close>, the transport, \<^verbatim>\<open>json.loads\<close> (\<open>None\<close> where it raises
  ValueError) and the interpreter's rendering of floats and containers.
\<close>

record world =
  getopt :: "(string \<times> string) list option"
  py_int :: "string \<Rightarrow> int option"
  perform :: "string \<Rightarrow> curl_result"
  loads :: "string \<Rightarrow> json option"
  repr :: "json \<Rightarrow> string"

definition build_url :: "args \<Rightarrow> string" where
  "build_url a =
     (if ssl a then ''https://'' else ''http://'') @
     hostname a @ '':'' @ str_int (port a) @ url a"

text \<open>The loop that fills \<^verbatim>\<open>badList\<close>.\<close>

fun find_bad :: "(string \<times> json) list \<Rightarrow> Check list \<Rightarrow> pyexc + Check list" where
  "find_bad [] badList = Inr badList"
| "find_bad ((checkName, valueDict) # rest) badList =
     (case getitem valueDict ''success'' of
        Inl e \<Rightarrow> Inl e
      | Inr s \<Rightarrow>
          if eq_False s then
            (case getitem valueDict ''message'' of
               Inl e \<Rightarrow> Inl e
             | Inr m \<Rightarrow>
                 find_bad rest (badList @ [\<lparr>name = checkName, message = m, success = s\<rparr>]))
          else find_bad rest badList)"

text \<open>The loop that appends \<^verbatim>\<open>", " + str(check)\<close> to the message for each check.\<close>

fun critical_msg :: "(json \<Rightarrow> string) \<Rightarrow> string \<Rightarrow> Check list \<Rightarrow> pyexc + string" where
  "critical_msg r msg [] = Inr msg"
| "critical_msg r msg (check # rest) =
     (case str_Check r check of
        Inl e \<Rightarrow> Inl e
      | Inr s \<Rightarrow> critical_msg r (msg @ '', '' @ s) rest)"

text \<open>The main block from the point where \<^verbatim>\<open>parse_args\<close> has returned.\<close>

definition run :: "world \<Rightarrow> args \<Rightarrow> outcome" where
  "run w a =
     (let u = build_url a in
      case perform w u of
        CurlError \<Rightarrow> Exited 3 [''UNKOWN: problem pycurling '' @ u]
      | Response code body \<Rightarrow>
          if code \<noteq> 200 then Exited 3 [''UNKNOWN: '' @ u @ '' returned a non 200 status code'']
          else
            (case loads w body of
               None \<Rightarrow>
                 Exited 3 [''UNKNOWN: '' @ u @ '' returned a non-json formatted string: '' @ body]
             | Some jsonResponse \<Rightarrow>
                 (case items jsonResponse of
                    Inl e \<Rightarrow> Uncaught e
                  | Inr its \<Rightarrow>
                      (case find_bad its [] of
                         Inl e \<Rightarrow> Uncaught e
                       | Inr badList \<Rightarrow>
                           if badList = [] then Exited 0 [''OK: All checks pass'']
                           else
                             (case critical_msg (repr w)
                                     ''CRITICAL: The following checks are failing'' badList of
                                Inl e \<Rightarrow> Uncaught e
                              | Inr msg \<Rightarrow> Exited 2 [msg])))))"

definition main_block :: "world \<Rightarrow> outcome" where
  "main_block w =
     (case parse_args (py_int w) (getopt w) of
        Inl out \<Rightarrow> out
      | Inr a \<Rightarrow> run w a)"

section \<open>sendgraph.py\<close>

subsection \<open>Module globals and command-line options\<close>

text \<open>
  The module reads thirteen environment variables once, with \<^verbatim>\<open>os.getenv(..., None)\<close>:
  each is a string or None.
\<close>

record env =
  graphite_metric :: "string option"
  warn_threshold :: "string option"
  crit_threshold :: "string option"
  contact_email :: "string option"
  notification_type :: "string option"
  service_state :: "string option"
  host_alias :: "string option"
  host_address :: "string option"
  service_description :: "string option"
  date_time :: "string option"
  action_url :: "string option"
  service_output :: "string option"
  service_duration :: "string option"

text \<open>
  The options object of \<^verbatim>\<open>get_options\<close>: \<^verbatim>\<open>interval\<close> and \<^verbatim>\<open>width\<close> have string
  defaults, the other two are None when the flag is absent.
\<close>

record options =
  base_url :: "string option"
  interval :: string
  width :: string
  from_email :: "string option"

text \<open>A replacement field of \<^verbatim>\<open>str.format\<close>: None is rendered as the text None.\<close>

fun fmt :: "string option \<Rightarrow> string" where
  "fmt None = ''None''"
| "fmt (Some s) = s"

text \<open>\<^verbatim>\<open>s.split(' ')\<close> and \<^verbatim>\<open>sep.join(xs)\<close>.\<close>

fun split_on :: "char \<Rightarrow> string \<Rightarrow> string list" where
  "split_on c [] = [[]]"
| "split_on c (x # xs) =
     (if x = c then [] # split_on c xs
      else (case split_on c xs of
              [] \<Rightarrow> [[x]]
            | w # ws \<Rightarrow> (x # w) # ws))"

fun join :: "string \<Rightarrow> string list \<Rightarrow> string" where
  "join sep [] = []"
| "join sep [x] = x"
| "join sep (x # y # ys) = x @ sep @ join sep (y # ys)"

subsection \<open>get\_highlight\_color and generate\_email\_body\<close>

definition get_highlight_color :: "string option \<Rightarrow> string option \<Rightarrow> string" where
  "get_highlight_color nt st =
     (if nt = Some ''ACKNOWLEDGEMENT'' then ''cyan''
      else if nt = Some ''CUSTOM'' then ''greenyellow''
      else if st = Some ''CRITICAL'' then ''lightcoral''
      else if st = Some ''WARNING'' then ''yellow''
      else if st = Some ''OK'' then ''springgreen''
      else if st = Some ''UNKNOWN'' then ''grey''
      else ''fuchsia'')"

definition generate_email_body :: "env \<Rightarrow> string \<Rightarrow> string" where
  "generate_email_body e bgcolor =
     fmt (date_time e) @ ''<BR><BR>'' @
     ''<TABLE border='0'>'' @
     ''<TR bgcolor='' @ [CHR 0x27] @ bgcolor @ '''><TD><B>Service State:</B></TD>'' @
     ''<TD><B>'' @ fmt (service_state e) @ ''</B></TD></TR>'' @
     ''<TR><TD>Notification Type:</TD><TD>'' @ fmt (notification_type e) @ ''</TD></TR>'' @
     ''<TR><TD>Service:</TD><TD>'' @ fmt (service_description e) @ ''</TD></TR>'' @
     ''<TR><TD>Host:</TD><TD>'' @ fmt (host_alias e) @ ''</TD></TR>'' @
     ''<TR><TD>Address:</TD><TD>'' @ fmt (host_address e) @ ''</TD></TR>'' @
     ''<TR><TD>Runbook:</TD><TD>'' @
     ''<A HREF='' @ [CHR 0x27] @ fmt (action_url e) @ '''>'' @ fmt (action_url e) @
     ''</A></TD></TR>'' @
     ''<TR><TD>Problem Duration:</TD><TD>'' @ fmt (service_duration e) @ ''</TD></TR>'' @
     ''<TR><TD></TD><TD></TD></TR>'' @
     ''<TR><TD>Check Output:</TD><TD>'' @ fmt (service_output e) @ ''</TD></TR>'' @
     ''</TABLE>''"

subsection \<open>get\_graph\<close>

text \<open>
  \<^verbatim>\<open>requests.get\<close> either raises (no \<^verbatim>\<open>except\<close> clause surrounds the call) or
  returns a response with a status code and a content. The function returns the URLs it
  requested beside its result, so that "no request was made" can be stated.
\<close>

datatype http_result = ConnectionFailed | HttpResponse nat string

definition get_graph ::
    "(string \<Rightarrow> http_result) \<Rightarrow> options \<Rightarrow> env \<Rightarrow> string list \<times> (pyexc + string option)" where
  "get_graph requests_get opts e =
     (case graphite_metric e of
        Some m \<Rightarrow>
          (let graph_url =
                 fmt (base_url opts) @ ''/render?lineMode=connected&from=-'' @ interval opts @
                 ''&width='' @ width opts @ ''&target='' @ m @
                 ''&bgcolor=FFFFFF&fgcolor=000000'';
               graph_url =
                 (case warn_threshold e of
                    Some wt \<Rightarrow>
                      graph_url @ ''&target=threshold('' @ wt @ '','warn = '' @ wt @ ''','yellow')''
                  | None \<Rightarrow> graph_url);
               graph_url =
                 (case crit_threshold e of
                    Some ct \<Rightarrow>
                      graph_url @ ''&target=threshold('' @ ct @ '', 'crit = '' @ ct @ ''','red')''
                  | None \<Rightarrow> graph_url)
           in ([graph_url],
               case requests_get graph_url of
                 ConnectionFailed \<Rightarrow> Inl RequestException
               | HttpResponse code content \<Rightarrow> Inr (Some content)))
      | None \<Rightarrow> ([], Inr None))"

subsection \<open>send\_graph\_email\<close>

record header =
  hname :: string
  hvalue :: string
  hparams :: "(string \<times> string) list"

datatype mime_part =
    MIMEText string string
  | MIMEImage string string "header list"

record email =
  subtype :: string
  parts :: "mime_part list"
  msg_to :: string
  msg_from :: "string option"
  msg_subject :: string

text \<open>
  What the run handed to the mail transport, and the lines logged at level ERROR.
  \<open>smtp\<close> stands for the \<^verbatim>\<open>try\<close> block (connect, sendmail, close): it returns the
  text of the exception raised there, if any.
\<close>

record delivery =
  sender :: "string option"
  receivers :: "string list"
  msg :: email
  logged :: "string list"

definition send_graph_email ::
    "(string option \<Rightarrow> string list \<Rightarrow> email \<Rightarrow> string option) \<Rightarrow>
     string option \<Rightarrow> string \<Rightarrow> string option \<Rightarrow> string list \<Rightarrow> string option \<Rightarrow> delivery" where
  "send_graph_email smtp graph subj sndr rcvs body =
     (let body = (case body of None \<Rightarrow> [CHR 0x0A] | Some b \<Rightarrow> b);
          body = (if graph \<noteq> None
                  then body @ ''<BR><BR><img src='' @ [CHR 0x22] @ ''cid:graph'' @ [CHR 0x22] @ ''>''
                  else body);
          imgpart = (case graph of
                       None \<Rightarrow> []
                     | Some g \<Rightarrow>
                         [MIMEImage g ''png''
                            [\<lparr>hname = ''Content-ID'', hvalue = ''<graph>'', hparams = []\<rparr>,
                             \<lparr>hname = ''Content-Disposition'', hvalue = ''inline'',
                              hparams = [(''filename'', ''graph.png'')]\<rparr>]]);
          m = \<lparr>subtype = ''related'', parts = [MIMEText body ''html''] @ imgpart,
               msg_to = join '', '' rcvs, msg_from = sndr, msg_subject = subj\<rparr>
      in \<lparr>sender = sndr, receivers = rcvs, msg = m,
          logged = (case smtp sndr rcvs m of
                      None \<Rightarrow> []
                    | Some out \<Rightarrow> [''Sending mail failed: '' @ out])\<rparr>)"

subsection \<open>main\<close>

datatype run_result = Aborted pyexc | Completed delivery

definition subject_line :: "env \<Rightarrow> string" where
  "subject_line e =
     fmt (notification_type e) @ '' '' @ fmt (service_state e) @ '' '' @
     fmt (host_alias e) @ ''/'' @ fmt (service_description e)"

definition main ::
    "(string \<Rightarrow> http_result) \<Rightarrow> (string option \<Rightarrow> string list \<Rightarrow> email \<Rightarrow> string option) \<Rightarrow>
     options \<Rightarrow> env \<Rightarrow> string list \<times> run_result" where
  "main requests_get smtp opts e =
     (let bgcolor = get_highlight_color (notification_type e) (service_state e);
          body = generate_email_body e bgcolor;
          subj = subject_line e
      in case get_graph requests_get opts e of
           (reqs, Inl x) \<Rightarrow> (reqs, Aborted x)
         | (reqs, Inr graph) \<Rightarrow>
             (case contact_email e of
                None \<Rightarrow> (reqs, Aborted AttributeError)
              | Some c \<Rightarrow>
                  (reqs,
                   Completed
                     (send_graph_email smtp graph subj (from_email opts) (split_on CHR '' '' c)
                        (Some body)))))"

section \<open>Reports in the documented format, and test worlds\<close>







text \<open>
  A concrete world for evaluating the script: the command line gave the options \<open>opts\<close>,
  the transport answers \<open>r\<close>, and \<^verbatim>\<open>json.loads\<close> of the body gives \<open>j\<close> (\<open>None\<close>: it
  raises ValueError).
\<close>

definition fixture :: "(string \<times> string) list \<Rightarrow> curl_result \<Rightarrow> json option \<Rightarrow> world" where
  "fixture opts r j =
     \<lparr>getopt = Some opts, py_int = (\<lambda>s. None), perform = (\<lambda>u. r), loads = (\<lambda>s. j),
      repr = (\<lambda>v. [])\<rparr>"

text \<open>
  Concrete surroundings for evaluating sendgraph.py: options and environment of one
  notification, a graphing service that gives the same answer \<open>r\<close> to every request,
  and a mail transport that accepts every message.
\<close>

definition example_options :: options where
  "example_options =
     \<lparr>base_url = Some ''http://graphite:14770'', interval = ''6hours'', width = ''800'',
      from_email = Some ''icinga@example.com''\<rparr>"

definition example_env :: env where
  "example_env =
     \<lparr>graphite_metric = Some ''maxSeries(stats.gauges.count.*)'',
      warn_threshold = Some ''1'', crit_threshold = Some ''5'',
      contact_email = Some ''a@example.com b@example.com'',
      notification_type = Some ''PROBLEM'', service_state = Some ''CRITICAL'',
      host_alias = Some ''web1'', host_address = Some ''10.0.0.1'',
      service_description = Some ''s_dn_test'', date_time = Some ''Mon Aug 4 2014'',
      action_url = Some ''https://myrunbook/link'', service_output = Some ''count is 7'',
      service_duration = Some ''0d 0h 5m 0s''\<rparr>"

definition graphite :: "http_result \<Rightarrow> string \<Rightarrow> http_result" where
  "graphite r u = r"

definition smtp_accepts :: "string option \<Rightarrow> string list \<Rightarrow> email \<Rightarrow> string option" where
  "smtp_accepts s r m = None"

text \<open>
  The parts of the message a run handed to the mail transport (\<open>None\<close> when it aborted
  before), the text \<^verbatim>\<open>send_graph_email\<close> appends to the body for a graph, and the image
  part it attaches.
\<close>

definition delivered_parts :: "run_result \<Rightarrow> mime_part list option" where
  "delivered_parts r = (case r of Aborted x \<Rightarrow> None | Completed d \<Rightarrow> Some (parts (msg d)))"

definition img_tag :: string where
  "img_tag = ''<BR><BR><img src='' @ [CHR 0x22] @ ''cid:graph'' @ [CHR 0x22] @ ''>''"

definition graph_part :: "string \<Rightarrow> mime_part" where
  "graph_part g =
     MIMEImage g ''png''
       [\<lparr>hname = ''Content-ID'', hvalue = ''<graph>'', hparams = []\<rparr>,
        \<lparr>hname = ''Content-Disposition'', hvalue = ''inline'',
         hparams = [(''filename'', ''graph.png'')]\<rparr>]"

section \<open>Properties of check\_okcomputer\_health\_page.py\<close>

subsection \<open>Auxiliary facts\<close>







lemma main_block_run:
  "parse_args (py_int w) (getopt w) = Inr a \<Longrightarrow> main_block w = run w a"
  by (simp add: main_block_def)

lemma default_args: "parse_args f (Some []) = Inr return_dict"
  by (simp add: parse_args_def)

lemma default_url: "build_url return_dict = ''http://localhost:80/health_checks''"
  by (simp add: build_url_def return_dict_def str_int_def)

lemma run_ignores_excludeList: "run w (a\<lparr>excludeList := xs\<rparr>) = run w a"
  by (simp add: run_def build_url_def)

subsection \<open>Aggregation\<close>




text \<open>
  C2: a check counts as failing exactly when its \<^verbatim>\<open>success\<close> is not true, also when the
  value is not literally false. The script tests \<^verbatim>\<open>== False\<close> instead: a check whose
  \<^verbatim>\<open>success\<close> is null is not put on the list, and the run ends with OK.
\<close>

theorem C2_null_success_is_not_failing:
  \<open>main_block
     (fixture [] (Response 200 ''{"a": {"message": "m", "success": null}}'')
        (Some (JObj [(''a'', JObj [(''message'', JStr ''m''), (''success'', JNull)])])))
   = Exited 0 [''OK: All checks pass'']\<close>
  by (simp add: main_block_def parse_args_def run_def fixture_def)

subsection \<open>Exclusion list\<close>

text \<open>
  What \<^verbatim>\<open>parse_args\<close> returns as exclusion list: stub, followed by the argument of
  every \<^verbatim>\<open>-e\<close> option in order.
\<close>

lemma parse_opts_excludeList:
  "parse_opts f os d = Inr d' \<Longrightarrow>
     excludeList d' =
       excludeList d @ map snd (filter (\<lambda>(opt, arg). opt = ''-e'' \<or> opt = ''--exclude'') os)"
proof (induction os arbitrary: d)
  case Nil
  then show ?case by simp
next
  case (Cons p ps)
  obtain opt arg where p: "p = (opt, arg)" by (cases p)
  define ex where "ex = (opt = ''-e'' \<or> opt = ''--exclude'')"
  have goal: "excludeList d' = excludeList d @ (if ex then [arg] else []) @
                map snd (filter (\<lambda>(opt, arg). opt = ''-e'' \<or> opt = ''--exclude'') ps)
              \<Longrightarrow> ?case"
    by (simp add: p ex_def)
  note s = Cons.prems [unfolded p]
  show ?case
  proof (cases "opt = ''-h'' \<or> opt = ''--help''")
    case True
    with s show ?thesis by simp
  next
    case c1: False
    show ?thesis
    proof (cases "opt = ''-H'' \<or> opt = ''--hostname''")
      case True
      then have "\<not> ex" by (auto simp: ex_def)
      moreover from s c1 True have "parse_opts f ps (d\<lparr>hostname := arg\<rparr>) = Inr d'" by simp
      ultimately show ?thesis using Cons.IH by (intro goal) simp
    next
      case c2: False
      show ?thesis
      proof (cases "opt = ''-p'' \<or> opt = ''--port''")
        case True
        then have "\<not> ex" by (auto simp: ex_def)
        moreover from s c1 c2 True obtain n where "parse_opts f ps (d\<lparr>port := n\<rparr>) = Inr d'"
          by (simp split: option.splits)
        ultimately show ?thesis using Cons.IH by (intro goal) simp
      next
        case c3: False
        show ?thesis
        proof (cases "opt = ''-S'' \<or> opt = ''--ssl''")
          case True
          then have "\<not> ex" by (auto simp: ex_def)
          moreover from s c1 c2 c3 True have "parse_opts f ps (d\<lparr>ssl := True\<rparr>) = Inr d'" by simp
          ultimately show ?thesis using Cons.IH by (intro goal) simp
        next
          case c4: False
          show ?thesis
          proof (cases "opt = ''-u'' \<or> opt = ''--url''")
            case True
            then have "\<not> ex" by (auto simp: ex_def)
            moreover from s c1 c2 c3 c4 True have "parse_opts f ps (d\<lparr>url := arg\<rparr>) = Inr d'"
              by simp
            ultimately show ?thesis using Cons.IH by (intro goal) simp
          next
            case c5: False
            show ?thesis
            proof (cases ex)
              case True
              with s c1 c2 c3 c4 c5
              have "parse_opts f ps (d\<lparr>excludeList := excludeList d @ [arg]\<rparr>) = Inr d'"
                by (simp add: ex_def)
              with True show ?thesis using Cons.IH by (intro goal) simp
            next
              case False
              with s c1 c2 c3 c4 c5 have "parse_opts f ps d = Inr d'"
                by (simp add: ex_def)
              with False show ?thesis using Cons.IH by (intro goal) simp
            qed
          qed
        qed
      qed
    qed
  qed
qed

lemma parse_args_excludeList:
  "parse_args f (Some os) = Inr a \<Longrightarrow>
     excludeList a = ''stub'' # map snd (filter (\<lambda>(opt, arg). opt = ''-e'' \<or> opt = ''--exclude'') os)"
  using parse_opts_excludeList [of f os return_dict a]
  by (simp add: parse_args_def return_dict_def)

text \<open>
  C3: a check named on the exclusion list (stub by default, plus every -e argument) is
  left out of the aggregation. The script builds the list in \<^verbatim>\<open>parse_args\<close> and never
  reads it: a report whose only check is a failing stub ends with CRITICAL and status 2,
  with the default list and with an explicit \<^verbatim>\<open>-e stub\<close> alike.
\<close>

theorem C3_failing_stub_is_reported:
  \<open>excludeList return_dict = [''stub'']
   \<and> main_block
       (fixture [] (Response 200 ''{"stub": {"success": false, "message": "x"}}'')
          (Some (JObj [(''stub'', JObj [(''success'', JBool False), (''message'', JStr ''x'')])])))
     = Exited 2 [''CRITICAL: The following checks are failing, stub : {message: x, success: False}'']
   \<and> main_block
       (fixture [(''-e'', ''stub'')] (Response 200 ''{"stub": {"success": false, "message": "x"}}'')
          (Some (JObj [(''stub'', JObj [(''success'', JBool False), (''message'', JStr ''x'')])])))
     = Exited 2 [''CRITICAL: The following checks are failing, stub : {message: x, success: False}'']\<close>
  by (simp add: main_block_def parse_args_def return_dict_def run_def build_url_def fixture_def
        str_Check_def is_ascii_def)

subsection \<open>Failures before aggregation\<close>

lemma find_bad_missing_success:
  "(k, JObj e) \<in> set its \<Longrightarrow> map_of e ''success'' = None \<Longrightarrow> \<exists>x. find_bad its acc = Inl x"
proof (induction its arbitrary: acc)
  case Nil
  then show ?case by simp
next
  case (Cons p ps)
  obtain k' v' where p: "p = (k', v')" by (cases p)
  show ?case
  proof (cases "p = (k, JObj e)")
    case True
    with Cons.prems(2) p show ?thesis by auto
  next
    case False
    with Cons.prems have "(k, JObj e) \<in> set ps" by simp
    from Cons.IH [OF this Cons.prems(2)] show ?thesis
      by (simp add: p split: sum.splits)
  qed
qed

lemma items_not_object: "(\<forall>d. j \<noteq> JObj d) \<Longrightarrow> items j = Inl AttributeError"
  by (cases j) simp_all

lemma run_transport_failure:
  "perform w (build_url a) = CurlError \<Longrightarrow>
     run w a = Exited 3 [''UNKOWN: problem pycurling '' @ build_url a]"
  by (simp add: run_def)

lemma run_non_200:
  "perform w (build_url a) = Response code body \<Longrightarrow> code \<noteq> 200 \<Longrightarrow>
     run w a = Exited 3 [''UNKNOWN: '' @ build_url a @ '' returned a non 200 status code'']"
  by (simp add: run_def)

lemma run_body_not_parsed:
  "perform w (build_url a) = CurlError \<or>
     (\<exists>code body. perform w (build_url a) = Response code body \<and> code \<noteq> 200) \<Longrightarrow>
   run (w\<lparr>loads := l\<rparr>) a = run w a"
  by (auto simp: run_def)

text \<open>
  C4, as the specification states it: a body that decodes to something other than an
  object, or to an object with a check that has no \<^verbatim>\<open>success\<close>, ends in UNKNOWN with
  status 3 and never in a crash. It fails on the script: only the ValueError of
  \<^verbatim>\<open>json.loads\<close> is caught, and both bodies below end in an uncaught exception.
\<close>

theorem C4_uncaught_on_unexpected_shape_counterexample:
  \<open>main_block (fixture [] (Response 200 ''[]'') (Some (JArr []))) = Uncaught AttributeError
   \<and> main_block
       (fixture [] (Response 200 ''{"a": {"message": "m"}}'')
          (Some (JObj [(''a'', JObj [(''message'', JStr ''m'')])])))
     = Uncaught KeyError\<close>
  by (simp add: main_block_def parse_args_def run_def fixture_def)

text \<open>
  C4, amended: after a response with status 200, a body that \<^verbatim>\<open>json.loads\<close> rejects
  gives the UNKNOWN line that quotes the URL and the body, and status 3. A body that
  decodes to a value other than an object ends the run with an uncaught AttributeError,
  and a report in which some check is an object without \<^verbatim>\<open>success\<close> ends it with an
  uncaught exception.
\<close>

theorem C4_only_malformed_json_is_unknown:
  assumes "parse_args (py_int w) (getopt w) = Inr a"
      and "perform w (build_url a) = Response 200 body"
  shows "(loads w body = None \<longrightarrow>
            main_block w =
              Exited 3 [''UNKNOWN: '' @ build_url a @ '' returned a non-json formatted string: '' @ body])
       \<and> (\<forall>j. loads w body = Some j \<longrightarrow> (\<forall>d. j \<noteq> JObj d) \<longrightarrow>
            main_block w = Uncaught AttributeError)
       \<and> (\<forall>d k e. loads w body = Some (JObj d) \<longrightarrow> (k, JObj e) \<in> set d \<longrightarrow>
            map_of e ''success'' = None \<longrightarrow> (\<exists>x. main_block w = Uncaught x))"
proof -
  note r = main_block_run [OF assms(1)]
  have 1: "loads w body = None \<longrightarrow>
            main_block w =
              Exited 3 [''UNKNOWN: '' @ build_url a @ '' returned a non-json formatted string: '' @ body]"
    using assms(2) by (simp add: r run_def)
  have 2: "\<forall>j. loads w body = Some j \<longrightarrow> (\<forall>d. j \<noteq> JObj d) \<longrightarrow>
            main_block w = Uncaught AttributeError"
    using assms(2) by (simp add: r run_def items_not_object)
  have 3: "\<forall>d k e. loads w body = Some (JObj d) \<longrightarrow> (k, JObj e) \<in> set d \<longrightarrow>
            map_of e ''success'' = None \<longrightarrow> (\<exists>x. main_block w = Uncaught x)"
  proof (intro allI impI)
    fix d k e
    assume l: "loads w body = Some (JObj d)" and m: "(k, JObj e) \<in> set d"
       and n: "map_of e ''success'' = None"
    from find_bad_missing_success [OF m n, of "[]"] obtain x where "find_bad d [] = Inl x" ..
    with assms(2) l show "\<exists>x. main_block w = Uncaught x"
      by (simp add: r run_def)
  qed
  from 1 2 3 show ?thesis by blast
qed

theorem C4_only_malformed_json_is_unknown_witness:
  \<open>main_block (fixture [] (Response 200 ''{"db":'') None) =
     Exited 3 [''UNKNOWN: http://localhost:80/health_checks returned a non-json formatted string: {"db":'']
   \<and> main_block (fixture [] (Response 200 ''7'') (Some (JInt 7))) = Uncaught AttributeError
   \<and> (\<exists>x. main_block (fixture [] (Response 200 ''{"db": {}}'') (Some (JObj [(''db'', JObj [])])))
           = Uncaught x)\<close>
proof -
  have p: "\<And>r j. parse_args (py_int (fixture [] r j)) (getopt (fixture [] r j)) = Inr return_dict"
    by (simp add: fixture_def default_args)
  have q: "\<And>r j. perform (fixture [] r j) (build_url return_dict) = r"
    by (simp add: fixture_def)
  have l: "\<And>r j s. loads (fixture [] r j) s = j"
    by (simp add: fixture_def)
  note t = C4_only_malformed_json_is_unknown [OF p q]
  have 1: \<open>main_block (fixture [] (Response 200 ''{"db":'') None) =
     Exited 3 [''UNKNOWN: http://localhost:80/health_checks returned a non-json formatted string: {"db":'']\<close>
    using t [of \<open>''{"db":''\<close> None] by (simp add: l default_url)
  have 2: "main_block (fixture [] (Response 200 ''7'') (Some (JInt 7))) = Uncaught AttributeError"
    using t [of "''7''" "Some (JInt 7)"] by (simp add: l)
  have 3: \<open>\<exists>x. main_block (fixture [] (Response 200 ''{"db": {}}'') (Some (JObj [(''db'', JObj [])])))
           = Uncaught x\<close>
    using t [of \<open>''{"db": {}}''\<close> "Some (JObj [(''db'', JObj [])])"] by (simp add: l)
  from 1 2 3 show ?thesis by blast
qed

text \<open>
  C5: a transport failure, or a status other than 200, prints an UNKNOWN line and exits
  3 without decoding the body. The status is 3 on both paths and the body is never
  decoded (\<open>run_transport_failure\<close>, \<open>run_non_200\<close>, \<open>run_body_not_parsed\<close>), but
  the line printed on a transport failure starts with \<^verbatim>\<open>UNKOWN:\<close>, where the line for
  a status other than 200 starts with \<^verbatim>\<open>UNKNOWN:\<close>.
\<close>

theorem C5_transport_failure_prints_UNKOWN:
  "main_block (fixture [] CurlError None) =
     Exited 3 [''UNKOWN: problem pycurling http://localhost:80/health_checks'']
   \<and> main_block (fixture [] (Response 500 ''Internal Server Error'') None) =
     Exited 3 [''UNKNOWN: http://localhost:80/health_checks returned a non 200 status code'']"
  by (simp add: main_block_def parse_args_def run_def fixture_def default_url)

section \<open>Properties of sendgraph.py\<close>

subsection \<open>Auxiliary facts\<close>

lemma get_graph_requests:
  "graphite_metric e = Some m \<Longrightarrow> \<exists>u. fst (get_graph rg opts e) = [u] \<and>
     snd (get_graph rg opts e) =
       (case rg u of ConnectionFailed \<Rightarrow> Inl RequestException
        | HttpResponse code content \<Rightarrow> Inr (Some content))"
  by (simp add: get_graph_def Let_def)

lemma parts_send_graph_email:
  "parts (msg (send_graph_email smtp graph subj sndr rcvs (Some body))) =
     (case graph of None \<Rightarrow> [MIMEText body ''html'']
      | Some g \<Rightarrow> [MIMEText (body @ img_tag) ''html'', graph_part g])"
  by (simp add: send_graph_email_def Let_def img_tag_def graph_part_def split: option.splits)

lemma main_cases:
  "main rg smtp opts e =
     (fst (get_graph rg opts e),
      case snd (get_graph rg opts e) of
        Inl x \<Rightarrow> Aborted x
      | Inr graph \<Rightarrow>
          (case contact_email e of
             None \<Rightarrow> Aborted AttributeError
           | Some c \<Rightarrow>
               Completed
                 (send_graph_email smtp graph (subject_line e) (from_email opts)
                    (split_on CHR '' '' c)
                    (Some (generate_email_body e
                       (get_highlight_color (notification_type e) (service_state e)))))))"
  by (cases "get_graph rg opts e") (simp add: main_def Let_def split: sum.splits option.splits)

subsection \<open>Highlight colour\<close>

text \<open>
  C6: the colour is a priority table. ACKNOWLEDGEMENT gives cyan and CUSTOM gives
  greenyellow whatever the service state is; for any other notification type (also an
  absent one) CRITICAL, WARNING, OK and UNKNOWN give lightcoral, yellow, springgreen and
  grey, and every other state (also an absent one) gives fuchsia. The seven colours are
  pairwise different.
\<close>

theorem C6_priority_table:
  "get_highlight_color (Some ''ACKNOWLEDGEMENT'') st = ''cyan''
   \<and> get_highlight_color (Some ''CUSTOM'') st = ''greenyellow''
   \<and> (nt \<noteq> Some ''ACKNOWLEDGEMENT'' \<and> nt \<noteq> Some ''CUSTOM'' \<longrightarrow>
        get_highlight_color nt (Some ''CRITICAL'') = ''lightcoral''
      \<and> get_highlight_color nt (Some ''WARNING'') = ''yellow''
      \<and> get_highlight_color nt (Some ''OK'') = ''springgreen''
      \<and> get_highlight_color nt (Some ''UNKNOWN'') = ''grey''
      \<and> (st \<noteq> Some ''CRITICAL'' \<and> st \<noteq> Some ''WARNING'' \<and> st \<noteq> Some ''OK'' \<and>
         st \<noteq> Some ''UNKNOWN'' \<longrightarrow> get_highlight_color nt st = ''fuchsia''))
   \<and> distinct [''cyan'', ''greenyellow'', ''lightcoral'', ''yellow'', ''springgreen'', ''grey'',
                ''fuchsia'']"
  by (simp add: get_highlight_color_def)

text \<open>The four cases the specification lists.\<close>

theorem C6_priority_table_witness:
  "get_highlight_color (Some ''ACKNOWLEDGEMENT'') (Some ''CRITICAL'') = ''cyan''
   \<and> get_highlight_color (Some ''CUSTOM'') (Some ''WARNING'') = ''greenyellow''
   \<and> get_highlight_color (Some ''PROBLEM'') (Some ''CRITICAL'') = ''lightcoral''
   \<and> get_highlight_color (Some ''PROBLEM'') (Some ''GARBAGE'') = ''fuchsia''"
  using C6_priority_table [of "Some ''CRITICAL''" "Some ''PROBLEM''"]
        C6_priority_table [of "Some ''WARNING''" "Some ''PROBLEM''"]
        C6_priority_table [of "Some ''GARBAGE''" "Some ''PROBLEM''"]
  by simp

text \<open>
  C10: for every pair of inputs, absent or outside the documented values included, the
  function returns one of the seven colours, and it returns fuchsia exactly when none of
  the six rules matches.
\<close>

theorem C10_color_total:
  "get_highlight_color nt st \<in>
     set [''cyan'', ''greenyellow'', ''lightcoral'', ''yellow'', ''springgreen'', ''grey'', ''fuchsia'']
   \<and> (get_highlight_color nt st = ''fuchsia'' \<longleftrightarrow>
        nt \<noteq> Some ''ACKNOWLEDGEMENT'' \<and> nt \<noteq> Some ''CUSTOM'' \<and>
        st \<noteq> Some ''CRITICAL'' \<and> st \<noteq> Some ''WARNING'' \<and> st \<noteq> Some ''OK'' \<and>
        st \<noteq> Some ''UNKNOWN'')"
  by (simp add: get_highlight_color_def)

theorem C10_color_total_witness:
  "get_highlight_color None None = ''fuchsia''
   \<and> get_highlight_color (Some ''RECOVERY'') (Some ''ok'') = ''fuchsia''
   \<and> get_highlight_color None (Some ''OK'') \<noteq> ''fuchsia''"
  using C10_color_total [of None None]
        C10_color_total [of "Some ''RECOVERY''" "Some ''ok''"]
        C10_color_total [of None "Some ''OK''"]
  by simp

subsection \<open>Graph request and degraded cases\<close>

text \<open>
  C7, as the specification states it: with a metric configured, a failed graph fetch
  (network error or non-success response) still leads to an email without the image.
  It fails on the script: the exception of \<^verbatim>\<open>requests.get\<close> is not caught, so the run
  aborts before \<^verbatim>\<open>send_graph_email\<close> is called; and the content of a response with
  status 500 is embedded as the image.
\<close>

theorem C7_fetch_error_aborts_counterexample:
  "main (graphite ConnectionFailed) smtp_accepts example_options example_env =
     ([''http://graphite:14770/render?lineMode=connected&from=-6hours&width=800&target=maxSeries(stats.gauges.count.*)&bgcolor=FFFFFF&fgcolor=000000&target=threshold(1,'warn = 1','yellow')&target=threshold(5, 'crit = 5','red')''],
      Aborted RequestException)
   \<and> delivered_parts
       (snd (main (graphite (HttpResponse 500 ''Internal Server Error'')) smtp_accepts
               example_options example_env)) =
     Some [MIMEText (generate_email_body example_env ''lightcoral'' @ img_tag) ''html'',
           graph_part ''Internal Server Error'']"
  by (simp add: main_cases get_graph_def example_env_def example_options_def graphite_def
        delivered_parts_def parts_send_graph_email get_highlight_color_def)

text \<open>
  C7, amended: with a metric configured the run requests exactly one URL. If the request
  raises, the run aborts with that exception and no message reaches the mail transport.
  If it returns a response, whatever the status code, and a contact email is set, the
  message handed over has the body followed by the image reference and the content of
  the response as inline image part.
\<close>

theorem C7_fetch_outcomes:
  assumes "graphite_metric e = Some m"
  shows "\<exists>u. fst (main rg smtp opts e) = [u]
     \<and> (rg u = ConnectionFailed \<longrightarrow> snd (main rg smtp opts e) = Aborted RequestException)
     \<and> (\<forall>code content c. rg u = HttpResponse code content \<longrightarrow> contact_email e = Some c \<longrightarrow>
          delivered_parts (snd (main rg smtp opts e)) =
            Some [MIMEText
                    (generate_email_body e
                       (get_highlight_color (notification_type e) (service_state e)) @ img_tag)
                    ''html'',
                  graph_part content])"
proof -
  from get_graph_requests [OF assms, of rg opts] obtain u where
    u: "fst (get_graph rg opts e) = [u]" and
    r: "snd (get_graph rg opts e) =
         (case rg u of ConnectionFailed \<Rightarrow> Inl RequestException
          | HttpResponse code content \<Rightarrow> Inr (Some content))"
    by blast
  have 1: "fst (main rg smtp opts e) = [u]"
    by (simp add: main_cases u)
  have 2: "rg u = ConnectionFailed \<longrightarrow> snd (main rg smtp opts e) = Aborted RequestException"
    by (simp add: main_cases r)
  have 3: "\<forall>code content c. rg u = HttpResponse code content \<longrightarrow> contact_email e = Some c \<longrightarrow>
          delivered_parts (snd (main rg smtp opts e)) =
            Some [MIMEText
                    (generate_email_body e
                       (get_highlight_color (notification_type e) (service_state e)) @ img_tag)
                    ''html'',
                  graph_part content]"
    by (simp add: main_cases r delivered_parts_def parts_send_graph_email)
  from 1 2 3 show ?thesis by blast
qed

theorem C7_fetch_outcomes_witness:
  "fst (main (graphite ConnectionFailed) smtp_accepts example_options example_env) =
     [''http://graphite:14770/render?lineMode=connected&from=-6hours&width=800&target=maxSeries(stats.gauges.count.*)&bgcolor=FFFFFF&fgcolor=000000&target=threshold(1,'warn = 1','yellow')&target=threshold(5, 'crit = 5','red')'']
   \<and> snd (main (graphite ConnectionFailed) smtp_accepts example_options example_env) =
     Aborted RequestException
   \<and> delivered_parts
       (snd (main (graphite (HttpResponse 404 ''not found'')) smtp_accepts example_options
               example_env)) =
     Some [MIMEText (generate_email_body example_env ''lightcoral'' @ img_tag) ''html'',
           graph_part ''not found'']"
proof -
  have m: "graphite_metric example_env = Some ''maxSeries(stats.gauges.count.*)''"
    by (simp add: example_env_def)
  have c: "contact_email example_env = Some ''a@example.com b@example.com''"
    by (simp add: example_env_def)
  have h: "get_highlight_color (notification_type example_env) (service_state example_env) =
             ''lightcoral''"
    by (simp add: example_env_def get_highlight_color_def)
  have u: "fst (main (graphite ConnectionFailed) smtp_accepts example_options example_env) =
     [''http://graphite:14770/render?lineMode=connected&from=-6hours&width=800&target=maxSeries(stats.gauges.count.*)&bgcolor=FFFFFF&fgcolor=000000&target=threshold(1,'warn = 1','yellow')&target=threshold(5, 'crit = 5','red')'']"
    by (simp add: main_cases get_graph_def example_env_def example_options_def graphite_def)
  from C7_fetch_outcomes [OF m, of "graphite ConnectionFailed" smtp_accepts example_options]
  have 1: "snd (main (graphite ConnectionFailed) smtp_accepts example_options example_env) =
     Aborted RequestException"
    by (auto simp: graphite_def)
  from C7_fetch_outcomes
         [OF m, of "graphite (HttpResponse 404 ''not found'')" smtp_accepts example_options]
  have 2: "delivered_parts
       (snd (main (graphite (HttpResponse 404 ''not found'')) smtp_accepts example_options
               example_env)) =
     Some [MIMEText (generate_email_body example_env ''lightcoral'' @ img_tag) ''html'',
           graph_part ''not found'']"
    using c h by (auto simp: graphite_def)
  from u 1 2 show ?thesis by blast
qed

text \<open>
  C8: with no metric configured, \<^verbatim>\<open>get_graph\<close> requests nothing and returns None
  without raising, the run requests nothing, and (a contact email being set) the message
  handed to the mail transport has one part: the HTML body exactly as
  \<^verbatim>\<open>generate_email_body\<close> built it, with no image reference appended and no image part.
\<close>

theorem C8_no_metric_no_graph:
  assumes "graphite_metric e = None"
  shows "get_graph rg opts e = ([], Inr None)
     \<and> fst (main rg smtp opts e) = []
     \<and> (\<forall>c. contact_email e = Some c \<longrightarrow>
          delivered_parts (snd (main rg smtp opts e)) =
            Some [MIMEText
                    (generate_email_body e
                       (get_highlight_color (notification_type e) (service_state e)))
                    ''html''])"
proof -
  have g: "get_graph rg opts e = ([], Inr None)"
    using assms by (simp add: get_graph_def)
  show ?thesis
    by (simp add: g main_cases delivered_parts_def parts_send_graph_email)
qed

theorem C8_no_metric_no_graph_witness:
  "get_graph (graphite ConnectionFailed) example_options (example_env\<lparr>graphite_metric := None\<rparr>) =
     ([], Inr None)
   \<and> fst (main (graphite ConnectionFailed) smtp_accepts example_options
            (example_env\<lparr>graphite_metric := None\<rparr>)) = []
   \<and> delivered_parts
       (snd (main (graphite ConnectionFailed) smtp_accepts example_options
               (example_env\<lparr>graphite_metric := None\<rparr>))) =
     Some [MIMEText (generate_email_body (example_env\<lparr>graphite_metric := None\<rparr>) ''lightcoral'')
             ''html'']"
proof -
  let ?e = "example_env\<lparr>graphite_metric := None\<rparr>"
  have m: "graphite_metric ?e = None" by simp
  have c: "contact_email ?e = Some ''a@example.com b@example.com''"
    by (simp add: example_env_def)
  have h: "get_highlight_color (notification_type ?e) (service_state ?e) = ''lightcoral''"
    by (simp add: example_env_def get_highlight_color_def)
  from C8_no_metric_no_graph [OF m, of "graphite ConnectionFailed" example_options smtp_accepts]
  show ?thesis using c h by simp
qed

text \<open>
  C9: the requested URL is a function of base URL, interval, width, metric and the two
  thresholds alone: two runs that agree on these request the same URLs, whatever the
  network answers and whatever the rest of options and environment hold. With a metric
  it is the render URL followed by the overlay \<^verbatim>\<open>threshold(w,'warn = w','yellow')\<close> when
  a warning threshold is set and by \<^verbatim>\<open>threshold(c, 'crit = c','red')\<close> when a critical
  threshold is set; the two colours differ.
\<close>

theorem C9_graph_url_deterministic:
  "(base_url opts' = base_url opts \<and> interval opts' = interval opts \<and> width opts' = width opts \<and>
    graphite_metric e' = graphite_metric e \<and> warn_threshold e' = warn_threshold e \<and>
    crit_threshold e' = crit_threshold e \<longrightarrow>
      fst (get_graph rg' opts' e') = fst (get_graph rg opts e))
   \<and> (\<forall>m. graphite_metric e = Some m \<longrightarrow>
        fst (get_graph rg opts e) =
          [fmt (base_url opts) @ ''/render?lineMode=connected&from=-'' @ interval opts @
           ''&width='' @ width opts @ ''&target='' @ m @ ''&bgcolor=FFFFFF&fgcolor=000000'' @
           (case warn_threshold e of
              None \<Rightarrow> []
            | Some wt \<Rightarrow> ''&target=threshold('' @ wt @ '','warn = '' @ wt @ ''','yellow')'') @
           (case crit_threshold e of
              None \<Rightarrow> []
            | Some ct \<Rightarrow> ''&target=threshold('' @ ct @ '', 'crit = '' @ ct @ ''','red')'')])
   \<and> ''yellow'' \<noteq> ''red''"
  by (simp add: get_graph_def Let_def split: option.splits)

theorem C9_graph_url_deterministic_witness:
  "fst (get_graph (graphite ConnectionFailed) (example_options\<lparr>from_email := None\<rparr>)
          (example_env\<lparr>service_state := Some ''OK''\<rparr>)) =
     fst (get_graph (graphite (HttpResponse 200 ''png'')) example_options example_env)
   \<and> fst (get_graph (graphite (HttpResponse 200 ''png'')) example_options example_env) =
     [''http://graphite:14770/render?lineMode=connected&from=-6hours&width=800&target=maxSeries(stats.gauges.count.*)&bgcolor=FFFFFF&fgcolor=000000&target=threshold(1,'warn = 1','yellow')&target=threshold(5, 'crit = 5','red')'']"
proof -
  have m: "graphite_metric example_env = Some ''maxSeries(stats.gauges.count.*)''"
    by (simp add: example_env_def)
  from C9_graph_url_deterministic
         [of "example_options\<lparr>from_email := None\<rparr>" example_options
             "example_env\<lparr>service_state := Some ''OK''\<rparr>" example_env
             "graphite ConnectionFailed" "graphite (HttpResponse 200 ''png'')"]
  have 1: "fst (get_graph (graphite ConnectionFailed) (example_options\<lparr>from_email := None\<rparr>)
          (example_env\<lparr>service_state := Some ''OK''\<rparr>)) =
     fst (get_graph (graphite (HttpResponse 200 ''png'')) example_options example_env)"
    by simp
  from C9_graph_url_deterministic
         [of example_options example_options example_env example_env
             "graphite (HttpResponse 200 ''png'')" "graphite (HttpResponse 200 ''png'')"] m
  have 2: "fst (get_graph (graphite (HttpResponse 200 ''png'')) example_options example_env) =
     [''http://graphite:14770/render?lineMode=connected&from=-6hours&width=800&target=maxSeries(stats.gauges.count.*)&bgcolor=FFFFFF&fgcolor=000000&target=threshold(1,'warn = 1','yellow')&target=threshold(5, 'crit = 5','red')'']"
    by (simp add: example_env_def example_options_def)
  from 1 2 show ?thesis by blast
qed

end
